theory Spec2Isabelle
  imports Main
begin

section \<open>Values that cross the interfaces\<close>

text \<open>
  The HTTP handlers read fields of a parsed JSON body and answer with JSON or plain text.
  A body field is a \<open>json option\<close>: \<open>None\<close> is JavaScript's \<open>undefined\<close>, the
  value of a field the body does not have. Numbers are restricted to integers: every
  number the handlers compute is a row count or a multiple of one.
\<close>

datatype json =
    JNull
  | JBool bool
  | JNum int
  | JStr string
  | JArr "json list"
  | JObj "(string \<times> json) list"

text \<open>
  JavaScript's truthiness. The test \<open>!field\<close> of the handlers is \<open>falsy field\<close>:
  it holds of a missing field and of a field whose value is not truthy.
\<close>

fun truthy :: "json \<Rightarrow> bool" where
  "truthy JNull = False"
| "truthy (JBool b) = b"
| "truthy (JNum n) = (n \<noteq> 0)"
| "truthy (JStr s) = (s \<noteq> [])"
| "truthy (JArr xs) = True"
| "truthy (JObj kvs) = True"

definition falsy :: "json option \<Rightarrow> bool" where
  "falsy field = (case field of None \<Rightarrow> True | Some v \<Rightarrow> \<not> truthy v)"

text \<open>
  \<open>String(n)\<close> for an integral number: the decimal digits, with a sign (as JavaScript
  prints every integer below \<open>10^21\<close>, which all ids are). \<open>decimal\<close> prints a number
  that is not negative.
\<close>

definition digit_char :: "int \<Rightarrow> char" where
  "digit_char d = char_of (48 + d)"

function decimal :: "int \<Rightarrow> string" where
  "decimal n = (if n < 10 then [digit_char n] else decimal (n div 10) @ [digit_char (n mod 10)])"
  by pat_completeness auto
termination
  by (relation "measure nat") auto

declare decimal.simps [simp del]

definition String_num :: "int \<Rightarrow> string" where
  "String_num i = (if i < 0 then CHR ''-'' # decimal (- i) else decimal i)"

fun join_comma :: "string list \<Rightarrow> string" where
  "join_comma [] = []"
| "join_comma [s] = s"
| "join_comma (s # t # ss) = s @ CHR '','' # join_comma (t # ss)"

text \<open>
  \<open>String(v)\<close>, which is also the property key that \<open>obj[v]\<close> uses. An array joins its
  elements with commas, \<open>null\<close> elements as the empty string.
\<close>

fun String_js :: "json \<Rightarrow> string" where
  "String_js JNull = ''null''"
| "String_js (JBool b) = (if b then ''true'' else ''false'')"
| "String_js (JNum n) = String_num n"
| "String_js (JStr s) = s"
| "String_js (JArr xs) = join_comma (map (\<lambda>x. if x = JNull then [] else String_js x) xs)"
| "String_js (JObj kvs) = ''[object Object]''"

text \<open>
  What a handler hands back: \<open>res.status(n).json(v)\<close> or \<open>res.status(n).send(text)\<close>.
  \<open>Empty\<close> is a reply without a body, which \<open>res.json(f)\<close> sends for a function \<open>f\<close>
  (\<open>JSON.stringify(f)\<close> is \<open>undefined\<close>). \<open>ErrorPage\<close> is the page of the framework's
  own error handler: for a body over the limit of the body parser (413), and for an
  exception that a handler throws and nothing catches (500).
\<close>

datatype payload = Json json | Text string | Empty | ErrorPage

datatype reply = Reply nat payload

fun status_code :: "reply \<Rightarrow> nat" where
  "status_code (Reply n b) = n"

fun reply_body :: "reply \<Rightarrow> payload" where
  "reply_body (Reply n b) = b"

text \<open>A successful response has a 2xx status; 4xx and 5xx are error responses.\<close>

definition is_success :: "reply \<Rightarrow> bool" where
  "is_success r = (200 \<le> status_code r \<and> status_code r < 300)"

text \<open>
  The \<open>err\<close> a database driver passes to the callback (sqlite3) or throws (pg):
  \<open>None\<close> when the statement ran, \<open>Some message\<close> when it failed. A failed statement
  changes no row.
\<close>

type_synonym db_err = "string option"

section \<open>The referral ledger on SQL (index.js, and the two sqlite revisions)\<close>

text \<open>
  One row of table \<open>referrals\<close>. The surrogate key \<open>id\<close> is assigned by the database
  and never read by the program; it is left out. \<open>status\<close> is a TEXT column with default
  \<open>'pending'\<close>, \<open>created_at\<close> defaults to the time of the insert.

  The two id columns are BIGINT in index.js, INTEGER in the first sqlite revision and TEXT
  in the second. A row holds an id as the column holds it, written as text: a number by
  its decimal digits.
\<close>

record referral =
  referrer_id :: string
  referred_id :: string
  status :: string
  created_at :: nat

type_synonym referrals_table = "referral list"

text \<open>
  What the handlers bind to a statement is a JavaScript value, and which id the column
  reads from it is the business of the driver and of the column's type, not of the
  program. The handlers take it as the parameter \<open>reads\<close>: \<open>reads v\<close> is the id, as a
  row holds it, that the id columns read from the bound value \<open>v\<close>. A value the database
  refuses makes the statement fail, which is \<open>err\<close>.
\<close>

type_synonym column = "json \<Rightarrow> string"

text \<open>
  The instance of index.js: PostgreSQL reads a BIGINT from the text the driver sends, a
  decimal numeral with an optional sign, with leading zeros and with blanks around it,
  within 64 bits. So \<open>'0100'\<close>, \<open>' 100'\<close> and \<open>'+100'\<close> are all the id 100. It refuses
  other text (a newer server also reads numerals of other bases, which this instance does
  not); for a refused value the instance is the text itself.
\<close>

definition is_blank :: "char \<Rightarrow> bool" where
  "is_blank c = (c \<in> set [CHR '' '', CHR 0x09, CHR 0x0A, CHR 0x0B, CHR 0x0C, CHR 0x0D])"

definition digit_value :: "char \<Rightarrow> int option" where
  "digit_value c = (if (48::int) \<le> of_char c \<and> of_char c \<le> (57::int) then Some (of_char c - 48) else None)"

fun digits_value :: "int \<Rightarrow> string \<Rightarrow> int option" where
  "digits_value acc [] = Some acc"
| "digits_value acc (c # cs) =
     (case digit_value c of None \<Rightarrow> None | Some d \<Rightarrow> digits_value (10 * acc + d) cs)"

definition bigint_in :: "string \<Rightarrow> int option" where
  "bigint_in s =
     (let body = rev (dropWhile is_blank (rev (dropWhile is_blank s)));
          neg = (body \<noteq> [] \<and> hd body = CHR ''-'');
          ds = (if body \<noteq> [] \<and> (hd body = CHR ''-'' \<or> hd body = CHR ''+'') then tl body else body)
      in if ds = [] then None
         else
           (case digits_value 0 ds of
              None \<Rightarrow> None
            | Some n \<Rightarrow>
                (let i = (if neg then - n else n)
                 in if - (2 ^ 63) \<le> i \<and> i < 2 ^ 63 then Some i else None)))"

definition bigint_column :: column where
  "bigint_column v =
     (case v of
        JNum n \<Rightarrow> String_num n
      | JStr s \<Rightarrow> (case bigint_in s of Some n \<Rightarrow> String_num n | None \<Rightarrow> s)
      | _ \<Rightarrow> String_js v)"

record reward =
  money :: int
  gems :: int

definition REFERRER_REWARD :: reward where
  "REFERRER_REWARD = \<lparr>money = 50000, gems = 5\<rparr>"




text \<open>\<open>UPDATE referrals SET status = 'claimed' WHERE referrer_id = $1 AND status = 'pending'\<close>.\<close>

definition claims_row :: "string \<Rightarrow> referral \<Rightarrow> bool" where
  "claims_row u r = (referrer_id r = u \<and> status r = ''pending'')"

definition update_claimed :: "string \<Rightarrow> referrals_table \<Rightarrow> nat \<times> referrals_table" where
  "update_claimed u t =
     (length (filter (claims_row u) t),
      map (\<lambda>r. if claims_row u r then r\<lparr>status := ''claimed''\<rparr> else r) t)"

subsection \<open>The bot's handler of \<open>/start <code>\<close>\<close>



subsection \<open>\<open>GET /my-referrals/:userId\<close>\<close>



subsection \<open>\<open>POST /claim-rewards\<close>\<close>

definition claim_json :: "nat \<Rightarrow> json" where
  "claim_json rowCount =
     JObj [(''claimedCount'', JNum (int rowCount)),
           (''rewards'',
              JObj [(''money'', JNum (int rowCount * money REFERRER_REWARD)),
                    (''gems'', JNum (int rowCount * gems REFERRER_REWARD))])]"

definition claim_rewards_handler ::
  "column \<Rightarrow> db_err \<Rightarrow> json option \<Rightarrow> referrals_table \<Rightarrow> reply \<times> referrals_table"
where
  "claim_rewards_handler reads err userId t =
     (let required = (Reply 400 (Json (JObj [(''error'', JStr ''userId is required'')])), t) in
      case userId of
        None \<Rightarrow> required
      | Some v \<Rightarrow>
          if \<not> truthy v then required
          else
            (case err of
               Some e \<Rightarrow> (Reply 500 (Json (JObj [(''error'', JStr ''Database update failed'')])), t)
             | None \<Rightarrow>
                 (case update_claimed (reads v) t of
                    (rowCount, t') \<Rightarrow> (Reply 200 (Json (claim_json rowCount)), t'))))"

subsection \<open>Runs of the ledger\<close>







section \<open>The save store (the sqlite revision with \<open>user_saves\<close>)\<close>

record user_save =
  user_id :: string
  game_state :: string
  last_saved :: nat

type_synonym user_saves = "user_save list"

text \<open>The column constraint \<open>user_id TEXT PRIMARY KEY\<close>.\<close>

definition unique_user :: "user_saves \<Rightarrow> bool" where
  "unique_user t = distinct (map user_id t)"

text \<open>
  \<open>POST /save\<close> binds \<open>req.body.userId\<close> as it is, and the key column is TEXT. The sqlite3
  driver binds a string as text, a number as an integer when it is one of 32 bits and as
  a double otherwise, a boolean as 1 or 0, \<open>null\<close> as NULL, and an array or object as the
  text \<open>[object Object]\<close>. The TEXT column stores an integer by its digits and a double
  as sqlite prints it: with fifteen significant digits, \<open>.0\<close> after a whole number, and
  an exponent from \<open>10^15\<close> on. So the id 5000000000 is stored as \<open>5000000000.0\<close>.
  \<open>sqlite_text v\<close> is the text stored for a bound \<open>v\<close>, \<open>None\<close> for NULL.
\<close>

fun strip_zeros :: "string \<Rightarrow> string" where
  "strip_zeros ds = rev (dropWhile (\<lambda>c. c = CHR ''0'') (rev ds))"

definition real_text :: "int \<Rightarrow> string" where
  "real_text n =
     (if n < 10 ^ 15 then decimal n @ ''.0''
      else
        (let e = length (decimal n) - 1;
             scale = 10 ^ (e - 14);
             m = n div scale + (if scale \<le> 2 * (n mod scale) then 1 else 0);
             m' = (if m = 10 ^ 15 then 10 ^ 14 else m);
             e' = (if m = 10 ^ 15 then e + 1 else e);
             ds = decimal m';
             frac = strip_zeros (tl ds)
         in [hd ds] @ ''.'' @ (if frac = [] then ''0'' else frac) @ ''e+'' @ decimal (int e')))"

definition sqlite_text :: "json \<Rightarrow> string option" where
  "sqlite_text v =
     (case v of
        JNull \<Rightarrow> None
      | JBool b \<Rightarrow> Some (if b then ''1'' else ''0'')
      | JNum n \<Rightarrow>
          Some (if - (2 ^ 31) \<le> n \<and> n < 2 ^ 31 then String_num n
                else if n < 0 then CHR ''-'' # real_text (- n) else real_text n)
      | JStr s \<Rightarrow> Some s
      | JArr xs \<Rightarrow> Some ''[object Object]''
      | JObj kvs \<Rightarrow> Some ''[object Object]'')"

text \<open>
  \<open>INSERT OR REPLACE INTO user_saves (user_id, game_state, last_saved)
  VALUES (?, ?, CURRENT_TIMESTAMP)\<close>: the row in conflict on the key is deleted, the new
  row is inserted.
\<close>

definition insert_or_replace_save :: "nat \<Rightarrow> string \<Rightarrow> string \<Rightarrow> user_saves \<Rightarrow> user_saves" where
  "insert_or_replace_save now u g t =
     filter (\<lambda>r. user_id r \<noteq> u) t @ [\<lparr>user_id = u, game_state = g, last_saved = now\<rparr>]"

text \<open>
  \<open>db.get\<close> of \<open>SELECT game_state FROM user_saves WHERE user_id = ?\<close>, the parameter a
  string: the first row whose key is that text, or \<open>undefined\<close>.
\<close>

definition select_game_state :: "string \<Rightarrow> user_saves \<Rightarrow> string option" where
  "select_game_state u t = map_option game_state (find (\<lambda>r. user_id r = u) t)"

subsection \<open>\<open>GET /load/:userId\<close>\<close>

text \<open>
  \<open>JSON.parse\<close> and \<open>JSON.stringify\<close> belong to the platform, not to the program:
  the handlers take them as parameters. \<open>parse s = None\<close> is \<open>JSON.parse\<close> throwing,
  which nothing in the callback catches: the handler then sends no reply, which is the
  result \<open>None\<close>.
\<close>

definition load_handler :: "(string \<Rightarrow> json option) \<Rightarrow> db_err \<Rightarrow> string \<Rightarrow> user_saves \<Rightarrow> reply option" where
  "load_handler parse err userId t =
     (if userId = [] then Some (Reply 400 (Json (JObj [(''error'', JStr ''User ID is required.'')])))
      else
        (case err of
           Some e \<Rightarrow> Some (Reply 500 (Json (JObj [(''error'', JStr ''Database query failed'')])))
         | None \<Rightarrow>
             (case select_game_state userId t of
                Some gs \<Rightarrow>
                  if gs \<noteq> [] then map_option (\<lambda>v. Reply 200 (Json v)) (parse gs)
                  else Some (Reply 404 (Json (JObj [(''message'', JStr ''No save data found for this user.'')])))
              | None \<Rightarrow> Some (Reply 404 (Json (JObj [(''message'', JStr ''No save data found for this user.'')]))))))"

subsection \<open>\<open>POST /save\<close>\<close>

text \<open>
  A NULL key would violate NOT NULL and fail the statement; the guard lets no \<open>null\<close>
  id through, so that branch is never taken.
\<close>

definition save_handler ::
  "(json \<Rightarrow> string) \<Rightarrow> db_err \<Rightarrow> nat \<Rightarrow> json option \<Rightarrow> json option \<Rightarrow> user_saves \<Rightarrow> reply \<times> user_saves"
where
  "save_handler stringify err now userId gameState t =
     (let required = (Reply 400 (Json (JObj [(''error'', JStr ''userId and gameState are required.'')])), t);
          failed = (Reply 500 (Json (JObj [(''error'', JStr ''Failed to save game data.'')])), t)
      in
      case userId of
        None \<Rightarrow> required
      | Some v \<Rightarrow>
          if \<not> truthy v then required
          else
            (case gameState of
               None \<Rightarrow> required
             | Some g \<Rightarrow>
                 if \<not> truthy g then required
                 else
                   (let gameStateJson = stringify g in
                    case err of
                      Some e \<Rightarrow> failed
                    | None \<Rightarrow>
                        (case sqlite_text v of
                           None \<Rightarrow> failed
                         | Some key \<Rightarrow>
                             (Reply 200 (Json (JObj [(''success'', JBool True),
                                                     (''message'', JStr ''Game saved successfully.'')])),
                              insert_or_replace_save now key gameStateJson t)))))"

text \<open>
  The route as mounted: \<open>express.json({ limit: '500kb' })\<close> runs first and answers a
  body of more than 500 * 1024 bytes with 413; \<open>content_length\<close> is the length of the
  raw body.
\<close>

definition json_limit :: nat where
  "json_limit = 500 * 1024"

definition post_save ::
  "(json \<Rightarrow> string) \<Rightarrow> db_err \<Rightarrow> nat \<Rightarrow> nat \<Rightarrow> json option \<Rightarrow> json option \<Rightarrow> user_saves \<Rightarrow> reply \<times> user_saves"
where
  "post_save stringify err now content_length userId gameState t =
     (if content_length > json_limit then (Reply 413 ErrorPage, t)
      else save_handler stringify err now userId gameState t)"

section \<open>The in-memory variant (server.js)\<close>

text \<open>
  \<open>referralsDB\<close> is an object literal used as a dictionary from the referrer's id, as a
  property key, to that referrer's entry. Being an ordinary object it inherits from
  \<open>Object.prototype\<close>: for a key that is not its own, \<open>referralsDB[k]\<close> finds the member
  of \<open>Object.prototype\<close> of that name, if there is one. These members are functions,
  but for \<open>__proto__\<close>, which is \<open>Object.prototype\<close> itself. All of them are truthy, so
  the handlers take them for entries: \<open>POST /referral\<close> then fails on the missing list,
  and \<open>POST /claim\<close> writes \<open>rewardsToClaim = 0\<close> into the member it found.

  The state of the server is therefore the own properties of \<open>referralsDB\<close> and the
  names of the members that \<open>POST /claim\<close> has written to. A member reads
  \<open>rewardsToClaim\<close> as 0 once it was written to, or once \<open>Object.prototype\<close> was, from
  which every function inherits. What a property written into \<open>Object.prototype\<close> does
  to the framework is not part of this model.
\<close>

record user_data =
  rewardsToClaim :: nat
  referrals :: "json list"

record memory =
  referralsDB :: "string \<rightharpoonup> user_data"
  zeroed :: "string list"


definition Object_prototype_names :: "string list" where
  "Object_prototype_names =
     [''constructor'', ''__defineGetter__'', ''__defineSetter__'', ''hasOwnProperty'',
      ''__lookupGetter__'', ''__lookupSetter__'', ''isPrototypeOf'', ''propertyIsEnumerable'',
      ''toString'', ''valueOf'', ''__proto__'', ''toLocaleString'']"

text \<open>What \<open>referralsDB[k]\<close> finds.\<close>

datatype found = Undefined | Entry user_data | Member string

definition lookup :: "memory \<Rightarrow> string \<Rightarrow> found" where
  "lookup m k =
     (case referralsDB m k of
        Some d \<Rightarrow> Entry d
      | None \<Rightarrow> if k \<in> set Object_prototype_names then Member k else Undefined)"

definition member_is_zero :: "memory \<Rightarrow> string \<Rightarrow> bool" where
  "member_is_zero m n = (n \<in> set (zeroed m) \<or> ''__proto__'' \<in> set (zeroed m))"

text \<open>
  \<open>Array.prototype.includes\<close> compares with SameValueZero: primitives by value, and an
  array or object only with itself, which a value parsed from another request never is.
\<close>

fun same_value_zero :: "json \<Rightarrow> json \<Rightarrow> bool" where
  "same_value_zero JNull JNull = True"
| "same_value_zero (JBool a) (JBool b) = (a = b)"
| "same_value_zero (JNum a) (JNum b) = (a = b)"
| "same_value_zero (JStr a) (JStr b) = (a = b)"
| "same_value_zero x y = False"

definition js_includes :: "json list \<Rightarrow> json \<Rightarrow> bool" where
  "js_includes xs v = list_ex (\<lambda>x. same_value_zero x v) xs"


subsection \<open>\<open>POST /referral\<close>\<close>

text \<open>
  On a member of \<open>Object.prototype\<close> the property \<open>referrals\<close> is \<open>undefined\<close>, and the
  call of \<open>includes\<close> throws a TypeError that nothing catches: the framework answers 500.
\<close>

definition referral_handler :: "json option \<Rightarrow> json option \<Rightarrow> memory \<Rightarrow> reply \<times> memory" where
  "referral_handler referrerId refereeId m =
     (let missing = (Reply 400 (Text ''Missing referrerId or refereeId''), m) in
      case referrerId of
        None \<Rightarrow> missing
      | Some a \<Rightarrow>
          if \<not> truthy a then missing
          else
            (case refereeId of
               None \<Rightarrow> missing
             | Some b \<Rightarrow>
                 if \<not> truthy b then missing
                 else
                   (let k = String_js a;
                        m1 = (case lookup m k of
                                Undefined \<Rightarrow>
                                  m\<lparr>referralsDB := (referralsDB m)(k \<mapsto> \<lparr>rewardsToClaim = 0, referrals = []\<rparr>)\<rparr>
                              | _ \<Rightarrow> m)
                    in case lookup m1 k of
                         Entry d \<Rightarrow>
                           if js_includes (referrals d) b
                           then (Reply 200 (Text ''Referral already recorded.''), m1)
                           else (Reply 200 (Text ''Referral recorded successfully''),
                                 m1\<lparr>referralsDB := (referralsDB m1)
                                      (k \<mapsto> d\<lparr>rewardsToClaim := rewardsToClaim d + 1,
                                              referrals := referrals d @ [b]\<rparr>)\<rparr>)
                       | _ \<Rightarrow> (Reply 500 ErrorPage, m1))))"

subsection \<open>\<open>GET /rewards/:userId\<close>\<close>


subsection \<open>\<open>POST /claim\<close>\<close>

definition claim_handler :: "json option \<Rightarrow> memory \<Rightarrow> reply \<times> memory" where
  "claim_handler userId m =
     (case userId of
        None \<Rightarrow> (Reply 400 (Text ''Missing userId''), m)
      | Some v \<Rightarrow>
          if \<not> truthy v then (Reply 400 (Text ''Missing userId''), m)
          else
            (let k = String_js v in
             case lookup m k of
               Undefined \<Rightarrow> (Reply 400 (Text ''No rewards to claim''), m)
             | Entry userData \<Rightarrow>
                 if rewardsToClaim userData = 0 then (Reply 400 (Text ''No rewards to claim''), m)
                 else (Reply 200 (Text ''Rewards claimed successfully''),
                       m\<lparr>referralsDB := (referralsDB m)(k \<mapsto> userData\<lparr>rewardsToClaim := 0\<rparr>)\<rparr>)
             | Member n \<Rightarrow>
                 if member_is_zero m n then (Reply 400 (Text ''No rewards to claim''), m)
                 else (Reply 200 (Text ''Rewards claimed successfully''), m\<lparr>zeroed := n # zeroed m\<rparr>)))"





section \<open>Properties of the handlers\<close>

subsection \<open>Falsy values\<close>

text \<open>With integral numbers, the falsy values of a field are these four.\<close>

lemma falsy_values: "falsy (Some v) \<longleftrightarrow> v \<in> {JNum 0, JStr [], JBool False, JNull}"
  by (cases v) (auto simp: falsy_def)

subsection \<open>The SQL statements and the ledger\<close>


lemma update_claimed_length: "length (snd (update_claimed u t)) = length t"
  by (simp add: update_claimed_def)

lemma update_claimed_nth:
  "i < length t \<Longrightarrow>
   snd (update_claimed u t) ! i = (if claims_row u (t ! i) then (t ! i)\<lparr>status := ''claimed''\<rparr> else t ! i)"
  by (simp add: update_claimed_def)







lemma claim_rewards_table:
  "snd (claim_rewards_handler reads err userId t) = t \<or>
   (\<exists>v. userId = Some v \<and> truthy v \<and> err = None
        \<and> snd (claim_rewards_handler reads err userId t) = snd (update_claimed (reads v) t))"
  by (auto simp: claim_rewards_handler_def Let_def split: option.splits prod.splits)













subsection \<open>The save store\<close>

lemma sqlite_text_truthy: "truthy v \<Longrightarrow> \<exists>u. sqlite_text v = Some u"
  by (cases v) (simp_all add: sqlite_text_def)

lemma decimal_not_empty: "decimal n \<noteq> []"
  by (subst decimal.simps) simp

lemma real_text_not_empty: "real_text n \<noteq> []"
  by (simp add: real_text_def Let_def decimal_not_empty)

lemma sqlite_text_not_empty: "truthy v \<Longrightarrow> sqlite_text v = Some u \<Longrightarrow> u \<noteq> []"
  by (cases v) (auto simp: sqlite_text_def String_num_def decimal_not_empty real_text_not_empty split: if_splits)

lemma sqlite_text_string: "sqlite_text (JStr s) = Some s"
  by (simp add: sqlite_text_def)

lemma sqlite_text_int32: "- (2 ^ 31) \<le> n \<Longrightarrow> n < 2 ^ 31 \<Longrightarrow> sqlite_text (JNum n) = Some (String_num n)"
  by (simp add: sqlite_text_def)

lemma insert_or_replace_own:
  "[r\<leftarrow>insert_or_replace_save now u g t. user_id r = u] = [\<lparr>user_id = u, game_state = g, last_saved = now\<rparr>]"
  by (induction t) (simp_all add: insert_or_replace_save_def)


lemma insert_or_replace_unique:
  "unique_user t \<Longrightarrow> unique_user (insert_or_replace_save now u g t)"
  by (auto simp: unique_user_def insert_or_replace_save_def distinct_map_filter)

lemma select_after_insert_or_replace:
  "select_game_state u (insert_or_replace_save now u g t) = Some g"
  by (induction t) (simp_all add: select_game_state_def insert_or_replace_save_def)


lemma save_handler_ok:
  "truthy v \<Longrightarrow> truthy g \<Longrightarrow> sqlite_text v = Some u \<Longrightarrow>
   save_handler stringify None now (Some v) (Some g) t
     = (Reply 200 (Json (JObj [(''success'', JBool True), (''message'', JStr ''Game saved successfully.'')])),
        insert_or_replace_save now u (stringify g) t)"
  by (simp add: save_handler_def)

lemma post_save_success:
  "is_success (fst (post_save stringify err now content_length userId gameState t))
   \<longleftrightarrow> content_length \<le> json_limit \<and> \<not> falsy userId \<and> \<not> falsy gameState \<and> err = None"
proof (cases userId)
  case None
  then show ?thesis by (simp add: post_save_def save_handler_def is_success_def falsy_def)
next
  case (Some v)
  show ?thesis
  proof (cases "truthy v")
    case False
    with Some show ?thesis by (simp add: post_save_def save_handler_def is_success_def falsy_def)
  next
    case True
    then obtain u where u: "sqlite_text v = Some u" using sqlite_text_truthy by blast
    with Some True show ?thesis
      by (cases gameState; cases err)
         (auto simp: post_save_def save_handler_def is_success_def falsy_def Let_def)
  qed
qed

subsection \<open>The in-memory variant\<close>










lemma referral_handler_member:
  "truthy u \<Longrightarrow> truthy v \<Longrightarrow> String_js u \<in> set Object_prototype_names \<Longrightarrow>
   referralsDB m (String_js u) = None \<Longrightarrow>
   referral_handler (Some u) (Some v) m = (Reply 500 ErrorPage, m)"
  by (simp add: referral_handler_def lookup_def)

section \<open>The claims\<close>
















text \<open>
  C6 (amended). Round trip of the save store. When \<open>POST /save\<close> with \<open>userId\<close> \<open>v\<close>
  and game state \<open>S\<close> is answered with success, the row is stored under the text \<open>u\<close>
  that the key column holds for \<open>v\<close>, and \<open>GET /load\<close> of \<open>u\<close> (its query running) is
  answered 200 with \<open>S\<close>. This is under the assumption of the specification that
  serialization round-trips: \<open>JSON.parse\<close> reads back what \<open>JSON.stringify\<close> wrote for
  \<open>S\<close>, which is not the empty text. For a string id \<open>u\<close> is the id itself, and for a
  number of 32 bits its decimal digits. After the save the table has exactly one row for
  \<open>u\<close>, holding the serialized \<open>S\<close> and the time of the save (a full replacement), and a
  table with at most one row per user stays so.
\<close>

theorem save_load_round_trip:
  assumes "is_success (fst (post_save stringify err now content_length (Some v) (Some S) t))"
    and "parse (stringify S) = Some S" and "stringify S \<noteq> []"
  shows "\<exists>u. sqlite_text v = Some u
    \<and> load_handler parse None u
           (snd (post_save stringify err now content_length (Some v) (Some S) t))
         = Some (Reply 200 (Json S))
    \<and> [r\<leftarrow>snd (post_save stringify err now content_length (Some v) (Some S) t). user_id r = u]
         = [\<lparr>user_id = u, game_state = stringify S, last_saved = now\<rparr>]
    \<and> (unique_user t \<longrightarrow>
         unique_user (snd (post_save stringify err now content_length (Some v) (Some S) t)))
    \<and> (v = JStr w \<longrightarrow> u = w)
    \<and> (v = JNum n \<and> - (2 ^ 31) \<le> n \<and> n < 2 ^ 31 \<longrightarrow> u = String_js v)"
proof -
  from assms(1) have ok: "content_length \<le> json_limit" "truthy v" "truthy S" "err = None"
    by (simp_all add: post_save_success falsy_def)
  from ok(2) obtain u where u: "sqlite_text v = Some u" using sqlite_text_truthy by blast
  with ok(2) have ne: "u \<noteq> []" by (simp add: sqlite_text_not_empty)
  let ?t' = "insert_or_replace_save now u (stringify S) t"
  have t': "snd (post_save stringify err now content_length (Some v) (Some S) t) = ?t'"
    using ok u by (simp add: post_save_def save_handler_ok)
  have 1: "load_handler parse None u ?t' = Some (Reply 200 (Json S))"
    using ne assms(2,3) by (simp add: load_handler_def select_after_insert_or_replace)
  have 2: "[r\<leftarrow>?t'. user_id r = u] = [\<lparr>user_id = u, game_state = stringify S, last_saved = now\<rparr>]"
    by (rule insert_or_replace_own)
  have 3: "unique_user t \<longrightarrow> unique_user ?t'"
    by (simp add: insert_or_replace_unique)
  have 4: "v = JStr w \<longrightarrow> u = w"
    using u by (auto simp: sqlite_text_string)
  have 5: "v = JNum n \<and> - (2 ^ 31) \<le> n \<and> n < 2 ^ 31 \<longrightarrow> u = String_js v"
    using u by (auto simp: sqlite_text_int32)
  from u 1 2 3 4 5 show ?thesis unfolding t' by blast
qed

theorem save_load_round_trip_witness:
  "is_success (fst (post_save (\<lambda>j. if j = JObj [] then ''{}'' else ''null'') None 7 30
                (Some (JNum 100)) (Some (JObj []))
                [\<lparr>user_id = ''100'', game_state = ''[]'', last_saved = 3\<rparr>]))
   \<and> (\<lambda>s. if s = ''{}'' then Some (JObj []) else None) ((\<lambda>j. if j = JObj [] then ''{}'' else ''null'') (JObj []))
       = Some (JObj [])
   \<and> (\<lambda>j. if j = JObj [] then ''{}'' else ''null'') (JObj []) \<noteq> []
   \<and> sqlite_text (JNum 100) = Some ''100''
   \<and> load_handler (\<lambda>s. if s = ''{}'' then Some (JObj []) else None) None ''100''
        (snd (post_save (\<lambda>j. if j = JObj [] then ''{}'' else ''null'') None 7 30
                (Some (JNum 100)) (Some (JObj []))
                [\<lparr>user_id = ''100'', game_state = ''[]'', last_saved = 3\<rparr>]))
       = Some (Reply 200 (Json (JObj [])))
   \<and> snd (post_save (\<lambda>j. if j = JObj [] then ''{}'' else ''null'') None 7 30
                (Some (JNum 100)) (Some (JObj []))
                [\<lparr>user_id = ''100'', game_state = ''[]'', last_saved = 3\<rparr>])
       = [\<lparr>user_id = ''100'', game_state = ''{}'', last_saved = 7\<rparr>]"
proof -
  let ?str = "\<lambda>j. if j = JObj [] then ''{}'' else ''null''"
  let ?prs = "\<lambda>s. if s = ''{}'' then Some (JObj []) else None"
  let ?t = "[\<lparr>user_id = ''100'', game_state = ''[]'', last_saved = 3::nat\<rparr>]"
  have k: "sqlite_text (JNum 100) = Some ''100''" by code_simp
  have run: "post_save ?str None 7 30 (Some (JNum 100)) (Some (JObj [])) ?t
       = (Reply 200 (Json (JObj [(''success'', JBool True), (''message'', JStr ''Game saved successfully.'')])),
          [\<lparr>user_id = ''100'', game_state = ''{}'', last_saved = 7\<rparr>])"
    by (simp add: post_save_def save_handler_def k json_limit_def insert_or_replace_save_def)
  have h1: "is_success (fst (post_save ?str None 7 30 (Some (JNum 100)) (Some (JObj [])) ?t))"
    by (simp add: run is_success_def)
  have h2: "?prs (?str (JObj [])) = Some (JObj [])" by simp
  have h3: "?str (JObj []) \<noteq> []" by simp
  from save_load_round_trip [where stringify = ?str and parse = ?prs, OF h1 h2 h3]
  show ?thesis using h1 h2 h3 by (simp add: run k)
qed

text \<open>
  Counterexample to C6 as stated. The payload \<open>0\<close> is not saved: \<open>POST /save\<close> answers
  400 and the load that follows finds nothing. And a save under the numeric id
  5000000000 is answered with success, but the row is stored under the text
  \<open>5000000000.0\<close>, and \<open>GET /load/5000000000\<close> answers 404.
\<close>

theorem save_load_counterexample:
  "post_save (\<lambda>j. ''0'') None 7 30 (Some (JStr ''100'')) (Some (JNum 0)) []
     = (Reply 400 (Json (JObj [(''error'', JStr ''userId and gameState are required.'')])), [])
   \<and> load_handler (\<lambda>s. Some (JNum 0)) None ''100''
        (snd (post_save (\<lambda>j. ''0'') None 7 30 (Some (JStr ''100'')) (Some (JNum 0)) []))
     = Some (Reply 404 (Json (JObj [(''message'', JStr ''No save data found for this user.'')])))
   \<and> post_save (\<lambda>j. ''{}'') None 7 30 (Some (JNum 5000000000)) (Some (JObj [])) []
     = (Reply 200 (Json (JObj [(''success'', JBool True), (''message'', JStr ''Game saved successfully.'')])),
        [\<lparr>user_id = ''5000000000.0'', game_state = ''{}'', last_saved = 7\<rparr>])
   \<and> String_js (JNum 5000000000) = ''5000000000''
   \<and> load_handler (\<lambda>s. Some (JObj [])) None ''5000000000''
        (snd (post_save (\<lambda>j. ''{}'') None 7 30 (Some (JNum 5000000000)) (Some (JObj [])) []))
     = Some (Reply 404 (Json (JObj [(''message'', JStr ''No save data found for this user.'')])))"
proof -
  have k: "sqlite_text (JNum 5000000000) = Some ''5000000000.0''" by code_simp
  have n: "String_num 5000000000 = ''5000000000''" by code_simp
  show ?thesis
    by (simp add: post_save_def save_handler_def json_limit_def insert_or_replace_save_def
        load_handler_def select_game_state_def k n)
qed




text \<open>
  C9. Frame property of \<open>POST /claim-rewards\<close>: whatever the request and the outcome
  of the statement, the table keeps its length and its rows their positions (nothing
  is inserted or deleted); no row changes its \<open>referrer_id\<close>, \<open>referred_id\<close> or
  \<open>created_at\<close>; and there is one referrer \<open>a\<close>, the claiming user as the column reads
  the \<open>userId\<close>, such that a row that changes at all belongs to \<open>a\<close>, was pending, and
  differs from its old self only in that \<open>status\<close> is now \<open>'claimed'\<close>. So every row of
  any other referrer is unchanged.
\<close>

theorem claim_rewards_frame:
  assumes "claim_rewards_handler reads err userId t = (r, t')"
  shows "length t' = length t \<and>
    (\<exists>a. (\<forall>v. userId = Some v \<longrightarrow> a = reads v) \<and>
      (\<forall>i < length t.
          referrer_id (t' ! i) = referrer_id (t ! i)
        \<and> referred_id (t' ! i) = referred_id (t ! i)
        \<and> created_at (t' ! i) = created_at (t ! i)
        \<and> (t' ! i \<noteq> t ! i \<longrightarrow>
              referrer_id (t ! i) = a \<and> status (t ! i) = ''pending''
              \<and> t' ! i = (t ! i)\<lparr>status := ''claimed''\<rparr>)))"
proof -
  define a where "a = (case userId of Some v \<Rightarrow> reads v | None \<Rightarrow> [])"
  have a: "\<forall>v. userId = Some v \<longrightarrow> a = reads v" by (simp add: a_def)
  from assms have t': "t' = snd (claim_rewards_handler reads err userId t)" by simp
  from claim_rewards_table [of reads err userId t]
  have both: "length t' = length t \<and>
      (\<forall>i < length t.
          referrer_id (t' ! i) = referrer_id (t ! i)
        \<and> referred_id (t' ! i) = referred_id (t ! i)
        \<and> created_at (t' ! i) = created_at (t ! i)
        \<and> (t' ! i \<noteq> t ! i \<longrightarrow>
              referrer_id (t ! i) = a \<and> status (t ! i) = ''pending''
              \<and> t' ! i = (t ! i)\<lparr>status := ''claimed''\<rparr>))"
  proof
    assume "snd (claim_rewards_handler reads err userId t) = t"
    with t' show ?thesis by simp
  next
    assume "\<exists>v. userId = Some v \<and> truthy v \<and> err = None
      \<and> snd (claim_rewards_handler reads err userId t) = snd (update_claimed (reads v) t)"
    then obtain v where v: "userId = Some v" and eq: "t' = snd (update_claimed (reads v) t)"
      using t' by auto
    from v have av: "a = reads v" by (simp add: a_def)
    show ?thesis
      unfolding eq av
      by (auto simp: update_claimed_length update_claimed_nth claims_row_def)
  qed
  show ?thesis
  proof (rule conjI)
    from both show "length t' = length t" by (rule conjunct1)
  next
    show "\<exists>a. (\<forall>v. userId = Some v \<longrightarrow> a = reads v) \<and>
      (\<forall>i < length t.
          referrer_id (t' ! i) = referrer_id (t ! i)
        \<and> referred_id (t' ! i) = referred_id (t ! i)
        \<and> created_at (t' ! i) = created_at (t ! i)
        \<and> (t' ! i \<noteq> t ! i \<longrightarrow>
              referrer_id (t ! i) = a \<and> status (t ! i) = ''pending''
              \<and> t' ! i = (t ! i)\<lparr>status := ''claimed''\<rparr>))"
    proof (rule exI [of _ a], rule conjI)
      show "\<forall>v. userId = Some v \<longrightarrow> a = reads v" by (rule a)
    next
      from both show "\<forall>i < length t.
          referrer_id (t' ! i) = referrer_id (t ! i)
        \<and> referred_id (t' ! i) = referred_id (t ! i)
        \<and> created_at (t' ! i) = created_at (t ! i)
        \<and> (t' ! i \<noteq> t ! i \<longrightarrow>
              referrer_id (t ! i) = a \<and> status (t ! i) = ''pending''
              \<and> t' ! i = (t ! i)\<lparr>status := ''claimed''\<rparr>)"
        by (rule conjunct2)
    qed
  qed
qed

theorem claim_rewards_frame_witness:
  "claim_rewards_handler bigint_column None (Some (JStr ''100''))
     [\<lparr>referrer_id = ''100'', referred_id = ''200'', status = ''pending'', created_at = 1\<rparr>,
      \<lparr>referrer_id = ''300'', referred_id = ''400'', status = ''pending'', created_at = 2\<rparr>]
   = (Reply 200 (Json (claim_json 1)),
     [\<lparr>referrer_id = ''100'', referred_id = ''200'', status = ''claimed'', created_at = 1\<rparr>,
      \<lparr>referrer_id = ''300'', referred_id = ''400'', status = ''pending'', created_at = 2\<rparr>])
   \<and> length [\<lparr>referrer_id = ''100'', referred_id = ''200'', status = ''claimed'', created_at = 1\<rparr>,
      \<lparr>referrer_id = ''300'', referred_id = ''400'', status = ''pending'', created_at = (2::nat)\<rparr>] = 2"
proof -
  have run: "claim_rewards_handler bigint_column None (Some (JStr ''100''))
     [\<lparr>referrer_id = ''100'', referred_id = ''200'', status = ''pending'', created_at = 1\<rparr>,
      \<lparr>referrer_id = ''300'', referred_id = ''400'', status = ''pending'', created_at = 2\<rparr>]
   = (Reply 200 (Json (claim_json 1)),
     [\<lparr>referrer_id = ''100'', referred_id = ''200'', status = ''claimed'', created_at = 1\<rparr>,
      \<lparr>referrer_id = ''300'', referred_id = ''400'', status = ''pending'', created_at = 2\<rparr>])"
    by code_simp
  from claim_rewards_frame [OF run] show ?thesis using run by simp
qed

text \<open>
  C10. A field that is present but falsy (\<open>0\<close>, the empty string, \<open>false\<close>, \<open>null\<close>) is
  treated as a missing one: \<open>POST /claim-rewards\<close> with such a \<open>userId\<close>, and
  \<open>POST /save\<close> with such a \<open>userId\<close> or \<open>gameState\<close>, are answered with 400 and leave
  the table as it was, whatever the database would have done (\<open>err\<close> is arbitrary: no
  statement is run). For \<open>POST /save\<close> this is the handler, and the route for a body
  within the limit of the body parser. The handlers of the in-memory variant do the same.
\<close>

theorem falsy_field_rejected:
  assumes "v \<in> {JNum 0, JStr [], JBool False, JNull}"
  shows "claim_rewards_handler reads err (Some v) t = (Reply 400 (Json (JObj [(''error'', JStr ''userId is required'')])), t)
    \<and> claim_rewards_handler reads err (Some v) t = claim_rewards_handler reads err None t
    \<and> save_handler stringify err now (Some v) gameState s
        = (Reply 400 (Json (JObj [(''error'', JStr ''userId and gameState are required.'')])), s)
    \<and> save_handler stringify err now userId (Some v) s
        = (Reply 400 (Json (JObj [(''error'', JStr ''userId and gameState are required.'')])), s)
    \<and> save_handler stringify err now (Some v) gameState s = save_handler stringify err now None gameState s
    \<and> save_handler stringify err now userId (Some v) s = save_handler stringify err now userId None s
    \<and> (content_length \<le> json_limit \<longrightarrow>
          post_save stringify err now content_length (Some v) gameState s
            = (Reply 400 (Json (JObj [(''error'', JStr ''userId and gameState are required.'')])), s)
        \<and> post_save stringify err now content_length userId (Some v) s
            = (Reply 400 (Json (JObj [(''error'', JStr ''userId and gameState are required.'')])), s))
    \<and> referral_handler (Some v) refereeId m = (Reply 400 (Text ''Missing referrerId or refereeId''), m)
    \<and> referral_handler referrerId (Some v) m = (Reply 400 (Text ''Missing referrerId or refereeId''), m)
    \<and> claim_handler (Some v) m = (Reply 400 (Text ''Missing userId''), m)"
proof -
  from assms have f: "\<not> truthy v" by auto
  have 1: "claim_rewards_handler reads err (Some v) t
      = (Reply 400 (Json (JObj [(''error'', JStr ''userId is required'')])), t)"
    and 2: "claim_rewards_handler reads err None t
      = (Reply 400 (Json (JObj [(''error'', JStr ''userId is required'')])), t)"
    by (simp_all add: claim_rewards_handler_def f)
  have 3: "save_handler stringify err now (Some v) gameState s
        = (Reply 400 (Json (JObj [(''error'', JStr ''userId and gameState are required.'')])), s)"
    and 4: "save_handler stringify err now None gameState s
        = (Reply 400 (Json (JObj [(''error'', JStr ''userId and gameState are required.'')])), s)"
    by (simp_all add: save_handler_def f)
  have 5: "save_handler stringify err now userId (Some v) s
        = (Reply 400 (Json (JObj [(''error'', JStr ''userId and gameState are required.'')])), s)"
    and 6: "save_handler stringify err now userId None s
        = (Reply 400 (Json (JObj [(''error'', JStr ''userId and gameState are required.'')])), s)"
    by (simp_all add: save_handler_def Let_def f split: option.splits)
  have 7: "referral_handler (Some v) refereeId m = (Reply 400 (Text ''Missing referrerId or refereeId''), m)"
    and 8: "referral_handler referrerId (Some v) m = (Reply 400 (Text ''Missing referrerId or refereeId''), m)"
    and 9: "claim_handler (Some v) m = (Reply 400 (Text ''Missing userId''), m)"
    by (simp_all add: referral_handler_def claim_handler_def Let_def f split: option.splits)
  from 1 2 3 4 5 6 7 8 9 show ?thesis by (simp add: post_save_def)
qed

theorem falsy_field_rejected_witness:
  "JNum 0 \<in> {JNum 0, JStr [], JBool False, JNull}
   \<and> claim_rewards_handler bigint_column None (Some (JNum 0))
        [\<lparr>referrer_id = ''100'', referred_id = ''200'', status = ''pending'', created_at = 1\<rparr>]
      = (Reply 400 (Json (JObj [(''error'', JStr ''userId is required'')])),
        [\<lparr>referrer_id = ''100'', referred_id = ''200'', status = ''pending'', created_at = 1\<rparr>])
   \<and> save_handler (\<lambda>g. ''{}'') None 7 (Some (JStr ''100'')) (Some (JNum 0)) []
      = (Reply 400 (Json (JObj [(''error'', JStr ''userId and gameState are required.'')])), [])"
proof -
  have h: "JNum 0 \<in> {JNum 0, JStr [], JBool False, JNull}" by simp
  from falsy_field_rejected [OF h] show ?thesis using h by simp
qed

end
